theory Spec2Isabelle
  imports Main "HOL-Library.Sublist" "HOL-Library.AList"
begin

section \<open>Python string primitives used by the TL1 engine\<close>

text \<open>
  Strings are \<^typ>\<open>string\<close>: a character is a Unicode code point below 256 (TL1 is an ASCII
  protocol; the 8-bit range is Latin-1, and code points from 256 on are outside the type).
  The character classes below are Python's \<^verbatim>\<open>str.isspace\<close>, which is also the class
  \<^verbatim>\<open>\s\<close> of a regular expression on \<^verbatim>\<open>str\<close>, and the class \<^verbatim>\<open>\w\<close>, on that range. The
  backslash and the quotes are written by their codes.
\<close>

abbreviation backslash :: char where
  "backslash \<equiv> CHR 0x5C"

abbreviation dquote :: char where
  "dquote \<equiv> CHR 0x22"

abbreviation squote :: char where
  "squote \<equiv> CHR 0x27"

definition is_space :: "char \<Rightarrow> bool" where
  "is_space c \<longleftrightarrow> c \<in> set [CHR 0x20, CHR 0x09, CHR 0x0A, CHR 0x0B, CHR 0x0C, CHR 0x0D,
                               CHR 0x1C, CHR 0x1D, CHR 0x1E, CHR 0x1F, CHR 0x85, CHR 0xA0]"

definition latin1_word :: "char list" where
  "latin1_word =
       [CHR 0xAA, CHR 0xB2, CHR 0xB3, CHR 0xB5, CHR 0xB9, CHR 0xBA, CHR 0xBC, CHR 0xBD, CHR 0xBE, CHR 0xC0,
        CHR 0xC1, CHR 0xC2, CHR 0xC3, CHR 0xC4, CHR 0xC5, CHR 0xC6, CHR 0xC7, CHR 0xC8, CHR 0xC9, CHR 0xCA,
        CHR 0xCB, CHR 0xCC, CHR 0xCD, CHR 0xCE, CHR 0xCF, CHR 0xD0, CHR 0xD1, CHR 0xD2, CHR 0xD3, CHR 0xD4,
        CHR 0xD5, CHR 0xD6, CHR 0xD8, CHR 0xD9, CHR 0xDA, CHR 0xDB, CHR 0xDC, CHR 0xDD, CHR 0xDE, CHR 0xDF,
        CHR 0xE0, CHR 0xE1, CHR 0xE2, CHR 0xE3, CHR 0xE4, CHR 0xE5, CHR 0xE6, CHR 0xE7, CHR 0xE8, CHR 0xE9,
        CHR 0xEA, CHR 0xEB, CHR 0xEC, CHR 0xED, CHR 0xEE, CHR 0xEF, CHR 0xF0, CHR 0xF1, CHR 0xF2, CHR 0xF3,
        CHR 0xF4, CHR 0xF5, CHR 0xF6, CHR 0xF8, CHR 0xF9, CHR 0xFA, CHR 0xFB, CHR 0xFC, CHR 0xFD, CHR 0xFE,
        CHR 0xFF]"

definition is_word :: "char \<Rightarrow> bool" where
  "is_word c \<longleftrightarrow>
     c \<in> set ''abcdefghijklmnopqrstuvwxyzABCDEFGHIJKLMNOPQRSTUVWXYZ0123456789_'' \<or>
     c \<in> set latin1_word"

definition latin1_upper :: "char list" where
  "latin1_upper =
       [CHR 0xC0, CHR 0xC1, CHR 0xC2, CHR 0xC3, CHR 0xC4, CHR 0xC5, CHR 0xC6, CHR 0xC7, CHR 0xC8, CHR 0xC9,
        CHR 0xCA, CHR 0xCB, CHR 0xCC, CHR 0xCD, CHR 0xCE, CHR 0xCF, CHR 0xD0, CHR 0xD1, CHR 0xD2, CHR 0xD3,
        CHR 0xD4, CHR 0xD5, CHR 0xD6, CHR 0xD8, CHR 0xD9, CHR 0xDA, CHR 0xDB, CHR 0xDC, CHR 0xDD, CHR 0xDE]"

definition lower_char :: "char \<Rightarrow> char" where
  "lower_char c = (if c \<in> set ''ABCDEFGHIJKLMNOPQRSTUVWXYZ'' \<or> c \<in> set latin1_upper
                   then (case c of Char b0 b1 b2 b3 b4 b5 b6 b7 \<Rightarrow> Char b0 b1 b2 b3 b4 True b6 b7)
                   else c)"

text \<open>\<^verbatim>\<open>s.lower()\<close>\<close>

definition lower :: "string \<Rightarrow> string" where
  "lower s = map lower_char s"

text \<open>\<^verbatim>\<open>s.replace(old, new)\<close>: every occurrence, left to right, without overlap.\<close>

function replace :: "string \<Rightarrow> string \<Rightarrow> string \<Rightarrow> string" where
  "replace old new [] = (if old = [] then new else [])"
| "replace old new (c # cs) =
     (if old = [] then new @ c # replace old new cs
      else if prefix old (c # cs) then new @ replace old new (drop (length old) (c # cs))
      else c # replace old new cs)"
  by pat_completeness auto
termination
  by (relation "measure (\<lambda>(old, new, s). length s)") auto

text \<open>
  \<^verbatim>\<open>s.split(sep)\<close> for a separator that is not empty (every call site passes a literal;
  Python raises on an empty separator, here the text is then left whole).
\<close>

function split_aux :: "string \<Rightarrow> string \<Rightarrow> string \<Rightarrow> string list" where
  "split_aux sep cur [] = [cur]"
| "split_aux sep cur (c # cs) =
     (if sep \<noteq> [] \<and> prefix sep (c # cs)
      then cur # split_aux sep [] (drop (length sep) (c # cs))
      else split_aux sep (cur @ [c]) cs)"
  by pat_completeness auto
termination
  by (relation "measure (\<lambda>(sep, cur, s). length s)") auto

definition split :: "string \<Rightarrow> string \<Rightarrow> string list" where
  "split sep s = split_aux sep [] s"

text \<open>\<^verbatim>\<open>sep.join(xs)\<close>\<close>

fun join :: "string \<Rightarrow> string list \<Rightarrow> string" where
  "join sep [] = []"
| "join sep [x] = x"
| "join sep (x # y # ys) = x @ sep @ join sep (y # ys)"

text \<open>\<^verbatim>\<open>s.strip(chars)\<close>, with the set of characters as a predicate, and \<^verbatim>\<open>s.strip()\<close>.\<close>

definition strip_chars :: "(char \<Rightarrow> bool) \<Rightarrow> string \<Rightarrow> string" where
  "strip_chars P s = rev (dropWhile P (rev (dropWhile P s)))"

definition strip :: "string \<Rightarrow> string" where
  "strip s = strip_chars is_space s"

text \<open>\<^verbatim>\<open>s.startswith(c)\<close> and \<^verbatim>\<open>s.endswith(c)\<close> for a one-character literal.\<close>

definition startswith :: "string \<Rightarrow> char \<Rightarrow> bool" where
  "startswith s c \<longleftrightarrow> (case s of [] \<Rightarrow> False | x # _ \<Rightarrow> x = c)"

definition endswith :: "string \<Rightarrow> char \<Rightarrow> bool" where
  "endswith s c \<longleftrightarrow> startswith (rev s) c"

text \<open>
  \<^verbatim>\<open>s.find(t)\<close> and \<^verbatim>\<open>s.rfind(t)\<close>: the index of the first and of the last occurrence;
  Python's \<^verbatim>\<open>-1\<close> is \<^const>\<open>None\<close>.
\<close>

fun find :: "string \<Rightarrow> string \<Rightarrow> nat option" where
  "find [] t = (if t = [] then Some 0 else None)"
| "find (c # cs) t = (if prefix t (c # cs) then Some 0 else map_option Suc (find cs t))"

fun rfind :: "string \<Rightarrow> string \<Rightarrow> nat option" where
  "rfind [] t = (if t = [] then Some 0 else None)"
| "rfind (c # cs) t =
     (case rfind cs t of
        Some i \<Rightarrow> Some (Suc i)
      | None \<Rightarrow> if prefix t (c # cs) then Some 0 else None)"

text \<open>
  \<^verbatim>\<open>s.splitlines()\<close>: the line boundaries below 256 are LF, CR, CR LF, VT, FF, FS, GS, RS
  and NEL; a final line break opens no empty last line.
\<close>

definition is_linebreak :: "char \<Rightarrow> bool" where
  "is_linebreak c \<longleftrightarrow> c \<in> set [CHR 0x0A, CHR 0x0D, CHR 0x0B, CHR 0x0C, CHR 0x1C, CHR 0x1D, CHR 0x1E,
                                   CHR 0x85]"

fun splitlines_aux :: "string \<Rightarrow> string \<Rightarrow> string list" where
  "splitlines_aux cur [] = (if cur = [] then [] else [cur])"
| "splitlines_aux cur [c] = (if is_linebreak c then [cur] else [cur @ [c]])"
| "splitlines_aux cur (c # d # cs) =
     (if c = CHR 0x0D \<and> d = CHR 0x0A then cur # splitlines_aux [] cs
      else if is_linebreak c then cur # splitlines_aux [] (d # cs)
      else splitlines_aux (cur @ [c]) (d # cs))"

definition splitlines :: "string \<Rightarrow> string list" where
  "splitlines s = splitlines_aux [] s"

text \<open>\<^verbatim>\<open>str(n)\<close> for an integer.\<close>

definition digit_char :: "nat \<Rightarrow> char" where
  "digit_char d = ''0123456789'' ! d"

fun str_nat :: "nat \<Rightarrow> string" where
  "str_nat n = (if n < 10 then [digit_char n] else str_nat (n div 10) @ [digit_char (n mod 10)])"

definition str_int :: "int \<Rightarrow> string" where
  "str_int i = (if i < 0 then CHR ''-'' # str_nat (nat (- i)) else str_nat (nat i))"

section \<open>Errors\<close>

text \<open>
  Every \<^verbatim>\<open>raise\<close> of the engine is a value. \<open>ValueError\<close> carries its message,
  \<open>AttributeError\<close> the type and the attribute that is missing, \<open>KeyError\<close> and
  \<open>TypeError\<close> the key and the keyword, \<open>ValidationError\<close> the field pydantic rejects,
  and \<open>TL1CommandDeniedError\<close> the three arguments it is raised with in
  \<^verbatim>\<open>TL1BaseCommand.execute\<close>: device, command text, raw response.
\<close>

datatype error =
    ValueError string
  | AttributeError string string
  | KeyError string
  | IndexError
  | TypeError string
  | ValidationError string
  | TL1CommandDeniedError string string string

section \<open>The response parser (commands/base.py, TL1BaseResponse)\<close>

text \<open>A parsed value is a string, a list of strings or a list of lists of strings.\<close>

datatype field_value = Str string | FlatList "string list" | NestedList "string list list"

text \<open>A record of \<^verbatim>\<open>parsed_data\<close> is a Python dict: keys in insertion order, one value per key.\<close>

type_synonym parsed_record = "(string \<times> field_value) list"

text \<open>
  \<^verbatim>\<open>split_preserving_quotes\<close>. The markers are raw string literals of three characters:
  \<^verbatim>\<open>r"=\""\<close> is equals sign, backslash, double quote. The loop index \<open>i\<close> is the
  position of the text still to read; \<^verbatim>\<open>i + 2 < len(text)\<close> says that three characters
  are left.
\<close>

definition quote_open :: "string list" where
  "quote_open = [[CHR ''='', backslash, dquote], [CHR '':'', backslash, dquote]]"

definition quote_close :: "string list" where
  "quote_close = [[backslash, dquote, CHR '',''], [backslash, dquote, CHR '':'']]"

definition next_in_quotes :: "bool \<Rightarrow> string \<Rightarrow> bool" where
  "next_in_quotes in_quotes rest =
     (if 3 \<le> length rest
      then (if take 3 rest \<in> set quote_open then True
            else if take 3 rest \<in> set quote_close then False
            else in_quotes)
      else in_quotes)"

fun scan_preserving_quotes :: "char \<Rightarrow> bool \<Rightarrow> string \<Rightarrow> string \<Rightarrow> string list" where
  "scan_preserving_quotes delimiter in_quotes current [] = [current]"
| "scan_preserving_quotes delimiter in_quotes current (c # cs) =
     (if c = delimiter \<and> \<not> next_in_quotes in_quotes (c # cs)
      then current # scan_preserving_quotes delimiter (next_in_quotes in_quotes (c # cs)) [] cs
      else scan_preserving_quotes delimiter (next_in_quotes in_quotes (c # cs)) (current @ [c]) cs)"

definition split_preserving_quotes :: "string \<Rightarrow> char \<Rightarrow> string list" where
  "split_preserving_quotes text delimiter = scan_preserving_quotes delimiter False [] text"

text \<open>The value of a named field: \<^verbatim>\<open>&-\<close> makes a list of lists, \<^verbatim>\<open>&\<close> a list.\<close>

definition decode_value :: "string \<Rightarrow> field_value" where
  "decode_value v =
     (if sublist ''&-'' v then NestedList (map (split ''&'') (split ''&-'' v))
      else if sublist ''&'' v then FlatList (split ''&'' v)
      else Str v)"

definition unquote :: "string \<Rightarrow> string" where
  "unquote v = (if startswith v dquote \<and> endswith v dquote then butlast (tl v) else v)"

text \<open>One part of a section: \<^verbatim>\<open>part.split("=", 1)\<close> cuts at the first equals sign.\<close>

definition parse_part :: "nat \<Rightarrow> nat \<Rightarrow> string \<Rightarrow> parsed_record \<Rightarrow> parsed_record" where
  "parse_part i j part rec =
     (if CHR ''='' \<in> set part
      then (let key = strip (takeWhile (\<lambda>c. c \<noteq> CHR ''='') part);
                v = strip (tl (dropWhile (\<lambda>c. c \<noteq> CHR ''='') part))
            in AList.update key (decode_value (unquote v)) rec)
      else AList.update (''positional_param_'' @ str_nat i @ ''_'' @ str_nat j) (Str (strip part)) rec)"

fun parse_parts :: "nat \<Rightarrow> nat \<Rightarrow> string list \<Rightarrow> parsed_record \<Rightarrow> parsed_record" where
  "parse_parts i j [] rec = rec"
| "parse_parts i j (part # parts) rec = parse_parts i (Suc j) parts (parse_part i j part rec)"

fun parse_sections :: "nat \<Rightarrow> string list \<Rightarrow> parsed_record \<Rightarrow> parsed_record" where
  "parse_sections i [] rec = rec"
| "parse_sections i (s # ss) rec =
     (if strip s = [] then parse_sections (Suc i) ss rec
      else parse_sections (Suc i) ss (parse_parts i 0 (split_preserving_quotes s (CHR '','')) rec))"

text \<open>One line of the body; \<^const>\<open>None\<close> when the line is skipped.\<close>

definition parse_line :: "string \<Rightarrow> parsed_record option" where
  "parse_line line0 =
     (let line = strip_chars (\<lambda>c. c \<in> set '' ;'') line0
      in if line = [] \<or> \<not> startswith line dquote then None
         else Some (parse_sections 0
                (split_preserving_quotes (strip_chars (\<lambda>c. c = dquote) line) (CHR '':'')) []))"

fun parse_lines :: "string list \<Rightarrow> parsed_record list" where
  "parse_lines [] = []"
| "parse_lines (l # ls) =
     (case parse_line l of None \<Rightarrow> parse_lines ls | Some r \<Rightarrow> r # parse_lines ls)"

text \<open>
  \<^verbatim>\<open>re.match(r"\s*(\w+)", text)\<close>: white space, then at least one word character, from the
  first position of the text; group 1 is the run of word characters.
\<close>

definition re_match_status :: "string \<Rightarrow> string option" where
  "re_match_status text =
     (let w = takeWhile is_word (dropWhile is_space text) in if w = [] then None else Some w)"

text \<open>
  Modelled from the spec: \<^verbatim>\<open>utils/fixed_params.py\<close> (the enumeration
  \<^verbatim>\<open>TL1CompletionStatus\<close> and \<^verbatim>\<open>DEFAULT_CTAG\<close>) is not among the sources. The spec names
  the completion codes COMPLD and DENY and the marker ALREADY, and lets every other vendor
  status string pass through unmodified; the default correlation tag is a parameter
  wherever it is needed.
\<close>

definition COMPLD :: string where
  "COMPLD = ''COMPLD''"

definition DENY :: string where
  "DENY = ''DENY''"

definition ALREADY :: string where
  "ALREADY = ''ALREADY''"

definition TL1CompletionStatus :: "string \<Rightarrow> string" where
  "TL1CompletionStatus s = s"

record TL1BaseResponse =
  status :: string
  raw_data :: string
  parsed_data :: "parsed_record list"
  ctag :: string
  sid :: "string option"
  tid :: "string option"

text \<open>
  A response class is its \<^verbatim>\<open>rename_positional_params\<close> hook, which may raise (a
  \<^verbatim>\<open>pop\<close> without default of a key that is absent).
\<close>

record TL1ResponseClass =
  response_name :: string
  rename_positional_params :: "parsed_record list \<Rightarrow> error + parsed_record list"

definition TL1BaseResponse_class :: TL1ResponseClass where
  "TL1BaseResponse_class =
     \<lparr>response_name = ''TL1BaseResponse'', rename_positional_params = (\<lambda>parsed. Inr parsed)\<rparr>"

text \<open>
  The first statements of \<^verbatim>\<open>from_raw_text\<close>: the tag is looked up from the right, and
  \<^verbatim>\<open>match.group(1)\<close> is called on what \<^verbatim>\<open>re.match\<close> returns, which is \<^verbatim>\<open>None\<close> when nothing
  matches.
\<close>

definition extract_status :: "string \<Rightarrow> string \<Rightarrow> error + string" where
  "extract_status message tag =
     (case rfind message tag of
        None \<Rightarrow> Inl (ValueError (''Could not find tag '' @ tag @ '' in message: '' @ message))
      | Some index \<Rightarrow>
          (case re_match_status (drop (index + length tag) message) of
             None \<Rightarrow> Inl (AttributeError ''NoneType'' ''group'')
           | Some st \<Rightarrow> Inr st))"

definition from_raw_text :: "TL1ResponseClass \<Rightarrow> string \<Rightarrow> string \<Rightarrow> error + TL1BaseResponse" where
  "from_raw_text cls message tag =
     (case extract_status message tag of
        Inl e \<Rightarrow> Inl e
      | Inr st \<Rightarrow>
          (let body = (case find message tag of
                         Some k \<Rightarrow> drop k message
                       | None \<Rightarrow> drop (length message - 1) message);
               records = parse_lines (tl (splitlines (strip body)))
           in case rename_positional_params cls records of
                Inl e \<Rightarrow> Inl e
              | Inr renamed \<Rightarrow>
                  Inr \<lparr>status = TL1CompletionStatus st, raw_data = body,
                       parsed_data = renamed, ctag = tag, sid = None, tid = None\<rparr>))"

text \<open>\<^verbatim>\<open>OtsResponse.rename_positional_params\<close> (commands/ots.py): \<^verbatim>\<open>pop\<close> with a default.\<close>

definition pop_default :: "string \<Rightarrow> field_value \<Rightarrow> parsed_record \<Rightarrow> field_value \<times> parsed_record" where
  "pop_default k d rec = (case map_of rec k of Some v \<Rightarrow> (v, AList.delete k rec) | None \<Rightarrow> (d, rec))"

definition rename_default :: "string \<Rightarrow> string \<Rightarrow> parsed_record \<Rightarrow> parsed_record" where
  "rename_default new old rec = (case pop_default old (Str []) rec of (v, rec') \<Rightarrow> AList.update new v rec')"

definition OtsResponse :: TL1ResponseClass where
  "OtsResponse =
     \<lparr>response_name = ''OtsResponse'',
      rename_positional_params = (\<lambda>parsed. Inr (map
        (\<lambda>rec. rename_default ''SUBOPERSTATE'' ''positional_param_3_1''
                 (rename_default ''OPERSTATE'' ''positional_param_3_0''
                   (rename_default ''RESOURCETYPE'' ''positional_param_1_0''
                     (rename_default ''AID'' ''positional_param_0_0'' rec)))) parsed))\<rparr>"




section \<open>Command values and the serializer (commands/base.py, TL1BaseCommand)\<close>

text \<open>
  The value of a field is \<^verbatim>\<open>None\<close>, a string or an integer, a list of those, or a list of
  lists (or tuples) of those: the shapes the field annotations of the command classes admit.
\<close>

datatype atom = AStr string | AInt int

datatype pyval = PNone | PAtom atom | PList "atom list" | PNested "atom list list"

fun str_atom :: "atom \<Rightarrow> string" where
  "str_atom (AStr s) = s"
| "str_atom (AInt i) = str_int i"

text \<open>
  \<^verbatim>\<open>repr\<close> of a string, as \<^verbatim>\<open>str\<close> of a list prints its items: the characters that are not
  printable (below 32, from 127 to 160, and 173) are written as escapes.
\<close>

definition hex_digit :: "nat \<Rightarrow> char" where
  "hex_digit d = ''0123456789abcdef'' ! d"

definition repr_char :: "char \<Rightarrow> char \<Rightarrow> string" where
  "repr_char q c =
     (if c = backslash \<or> c = q then [backslash, c]
      else if c = CHR 0x09 then [backslash, CHR ''t'']
      else if c = CHR 0x0A then [backslash, CHR ''n'']
      else if c = CHR 0x0D then [backslash, CHR ''r'']
      else if (of_char c :: nat) < 32 \<or> (127 \<le> (of_char c :: nat) \<and> (of_char c :: nat) \<le> 160)
          \<or> (of_char c :: nat) = 173
        then [backslash, CHR ''x'', hex_digit ((of_char c :: nat) div 16), hex_digit ((of_char c :: nat) mod 16)]
      else [c])"

definition repr_str :: "string \<Rightarrow> string" where
  "repr_str s =
     (let q = (if squote \<in> set s \<and> dquote \<notin> set s then dquote else squote)
      in q # concat (map (repr_char q) s) @ [q])"

fun repr_atom :: "atom \<Rightarrow> string" where
  "repr_atom (AStr s) = repr_str s"
| "repr_atom (AInt i) = str_int i"

definition repr_list :: "atom list \<Rightarrow> string" where
  "repr_list xs = ''['' @ join '', '' (map repr_atom xs) @ '']''"

fun py_str :: "pyval \<Rightarrow> string" where
  "py_str PNone = ''None''"
| "py_str (PAtom a) = str_atom a"
| "py_str (PList xs) = repr_list xs"
| "py_str (PNested xss) = ''['' @ join '', '' (map repr_list xss) @ '']''"

text \<open>
  A response class was defined above. A command class carries its class variables, the
  fields its body declares beside \<^verbatim>\<open>tid\<close>, \<^verbatim>\<open>aid\<close> and \<^verbatim>\<open>ctag\<close> of the base class (each
  with its default, \<^const>\<open>None\<close> for a required field, and pydantic's validation of a
  given value), whether it declares \<^verbatim>\<open>aid: str\<close> as required, and which \<^verbatim>\<open>to_string\<close> it
  has: the one of the base class, or the override of commands/maintenance\_state.py with
  the verb it writes.
\<close>

datatype to_string_impl = BaseToString | MaintenanceToString string

record field_decl =
  fd_default :: "pyval option"
  fd_validate :: "pyval \<Rightarrow> pyval option"

record TL1CommandClass =
  class_name :: string
  help_text :: string
  verb :: string
  modifier :: string
  response_class :: TL1ResponseClass
  aid_required :: bool
  declared :: "(string \<times> field_decl) list"
  to_string_impl :: to_string_impl

record TL1BaseCommand =
  command_cls :: TL1CommandClass
  tid :: "string option"
  aid :: "string option"
  ctag :: string
  extra :: "(string \<times> pyval) list"

text \<open>
  \<^verbatim>\<open>getattr(self, key, None)\<close> on the fields of the model. A template token that names a
  method or a class variable of the pydantic model instead of a field is outside the model.
\<close>

definition opt_str :: "string option \<Rightarrow> pyval" where
  "opt_str v = (case v of None \<Rightarrow> PNone | Some s \<Rightarrow> PAtom (AStr s))"

definition getattr :: "TL1BaseCommand \<Rightarrow> string \<Rightarrow> pyval" where
  "getattr self key =
     (if key = ''tid'' then opt_str (TL1BaseCommand.tid self)
      else if key = ''aid'' then opt_str (aid self)
      else if key = ''ctag'' then PAtom (AStr (TL1BaseCommand.ctag self))
      else (case map_of (extra self) key of Some v \<Rightarrow> v | None \<Rightarrow> PNone))"

text \<open>The text of a named parameter; \<^verbatim>\<open>value[0]\<close> of an empty list raises.\<close>

definition named_value :: "pyval \<Rightarrow> error + string" where
  "named_value v =
     (case v of
        PList xs \<Rightarrow> if xs = [] then Inl IndexError else Inr (join ''&'' (map str_atom xs))
      | PNested xss \<Rightarrow>
          if xss = [] then Inl IndexError
          else Inr (join ''&-'' (map (\<lambda>xs. join ''&'' (map str_atom xs)) xss))
      | _ \<Rightarrow> Inr (py_str v))"

text \<open>One part of a section appends at most one parameter to \<open>params\<close>.\<close>

definition to_string_part :: "TL1BaseCommand \<Rightarrow> string \<Rightarrow> string list \<Rightarrow> error + string list" where
  "to_string_part self part0 params =
     (let is_optional = (startswith part0 (CHR ''['') \<and> endswith part0 (CHR '']''));
          part = strip_chars (\<lambda>c. c \<in> set ''[]<>'') part0
      in if part = [] then Inr params
         else if CHR ''='' \<in> set part then
           (let name = takeWhile (\<lambda>c. c \<noteq> CHR ''='') part;
                key = replace ''-'' ''_'' (lower name);
                v = getattr self key
            in if v \<noteq> PNone
               then (case named_value v of
                       Inl e \<Rightarrow> Inl e
                     | Inr text \<Rightarrow> Inr (params @ [name @ ''='' @ text]))
               else Inr params)
         else
           (let name = replace ''|'' ''_'' (replace ''-'' ''_'' (lower part));
                v = getattr self name
            in if v \<noteq> PNone then Inr (params @ [py_str v])
               else if \<not> is_optional then Inr (params @ [[]])
               else Inr params))"

fun to_string_parts :: "TL1BaseCommand \<Rightarrow> string list \<Rightarrow> string list \<Rightarrow> error + string list" where
  "to_string_parts self [] params = Inr params"
| "to_string_parts self (part # parts) params =
     (case to_string_part self part params of
        Inl e \<Rightarrow> Inl e
      | Inr params' \<Rightarrow> to_string_parts self parts params')"

definition to_string_section :: "TL1BaseCommand \<Rightarrow> string \<Rightarrow> error + string" where
  "to_string_section self section0 =
     (if strip section0 = [] then Inr []
      else (case to_string_parts self
                   (split '','' (replace ''[,'' '',['' (replace '',]'' ''],'' section0))) [] of
              Inl e \<Rightarrow> Inl e
            | Inr params \<Rightarrow> Inr (if list_all (\<lambda>param. param = []) params then []
                                else join '','' params)))"

fun to_string_sections :: "TL1BaseCommand \<Rightarrow> string list \<Rightarrow> string list \<Rightarrow> error + string list" where
  "to_string_sections self [] result = Inr result"
| "to_string_sections self (s # ss) result =
     (case to_string_section self s of
        Inl e \<Rightarrow> Inl e
      | Inr text \<Rightarrow> to_string_sections self ss (result @ [text]))"

text \<open>
  The override of \<^verbatim>\<open>IntoAdminMaintenance\<close> and \<^verbatim>\<open>OutofAdminMaintenance\<close>: positional
  parameters only, and a section of empty parameters keeps its commas.
\<close>

definition maintenance_part :: "TL1BaseCommand \<Rightarrow> string \<Rightarrow> string list \<Rightarrow> string list" where
  "maintenance_part self part0 params =
     (let is_optional = (startswith part0 (CHR ''['') \<and> endswith part0 (CHR '']''));
          part = strip_chars (\<lambda>c. c \<in> set ''[]<>'') part0
      in if part = [] then params
         else (let v = getattr self (replace ''-'' ''_'' (lower part))
               in if v \<noteq> PNone then params @ [py_str v]
                  else if \<not> is_optional then params @ [[]]
                  else params))"

definition maintenance_section :: "TL1BaseCommand \<Rightarrow> string \<Rightarrow> string" where
  "maintenance_section self section0 =
     (if strip section0 = [] then []
      else join '','' (fold (maintenance_part self)
             (split '','' (replace ''[,'' '',['' (replace '',]'' ''],'' section0))) []))"

definition to_string :: "TL1BaseCommand \<Rightarrow> error + string" where
  "to_string self =
     (let cls = command_cls self; sections = split '':'' (help_text cls)
      in case to_string_impl cls of
           BaseToString \<Rightarrow>
             (case to_string_sections self (tl sections) [verb cls @ ''-'' @ modifier cls] of
                Inl e \<Rightarrow> Inl e
              | Inr result \<Rightarrow> Inr (join '':'' result @ '';''))
         | MaintenanceToString head \<Rightarrow>
             Inr (join '':'' ((head @ ''-'' @ py_str (getattr self ''aidtype''))
                              # map (maintenance_section self) (tl sections)) @ '';''))"

section \<open>The registry (commands/base.py, TL1CommandRegistry)\<close>

text \<open>\<^verbatim>\<open>commands\<close> is a Python dict from method name to command class.\<close>

type_synonym registry = "(string \<times> TL1CommandClass) list"

definition method_name :: "TL1CommandClass \<Rightarrow> string" where
  "method_name cls = lower (verb cls) @ ''_'' @ replace ''-'' ''_'' (lower (modifier cls))"

definition register :: "TL1CommandClass \<Rightarrow> registry \<Rightarrow> registry" where
  "register cls commands = AList.update (method_name cls) cls commands"

section \<open>Construction of a command value\<close>

text \<open>
  \<^verbatim>\<open>command_cls(**data)\<close> is pydantic's validation of the data against the fields of the
  class: \<^verbatim>\<open>tid: str | None = None\<close>, \<^verbatim>\<open>aid: str | None = None\<close> (or the required
  \<^verbatim>\<open>aid: str\<close> of a subclass), \<^verbatim>\<open>ctag: str = DEFAULT_CTAG\<close>, then the declared fields. A
  key that names no field is ignored; a default is taken as it is. The error names the
  first field that fails.
\<close>

definition validate_str :: "pyval \<Rightarrow> string option" where
  "validate_str v = (case v of PAtom (AStr s) \<Rightarrow> Some s | _ \<Rightarrow> None)"

definition validate_optional_str :: "pyval \<Rightarrow> string option option" where
  "validate_optional_str v =
     (case v of PNone \<Rightarrow> Some None | PAtom (AStr s) \<Rightarrow> Some (Some s) | _ \<Rightarrow> None)"

fun validate_declared :: "(string \<times> field_decl) list \<Rightarrow> (string \<times> pyval) list
    \<Rightarrow> error + (string \<times> pyval) list" where
  "validate_declared [] data = Inr []"
| "validate_declared ((name, decl) # ds) data =
     (case (case map_of data name of Some v \<Rightarrow> fd_validate decl v | None \<Rightarrow> fd_default decl) of
        None \<Rightarrow> Inl (ValidationError name)
      | Some v \<Rightarrow>
          (case validate_declared ds data of
             Inl e \<Rightarrow> Inl e
           | Inr fs \<Rightarrow> Inr ((name, v) # fs)))"

definition construct :: "string \<Rightarrow> TL1CommandClass \<Rightarrow> (string \<times> pyval) list
    \<Rightarrow> error + TL1BaseCommand" where
  "construct default_ctag cls data =
     (case (case map_of data ''tid'' of
              None \<Rightarrow> Some None
            | Some v \<Rightarrow> validate_optional_str v) of
        None \<Rightarrow> Inl (ValidationError ''tid'')
      | Some t \<Rightarrow>
     (case (case map_of data ''aid'' of
              None \<Rightarrow> if aid_required cls then None else Some None
            | Some v \<Rightarrow> if aid_required cls then map_option Some (validate_str v)
                        else validate_optional_str v) of
        None \<Rightarrow> Inl (ValidationError ''aid'')
      | Some a \<Rightarrow>
     (case (case map_of data ''ctag'' of
              None \<Rightarrow> Some default_ctag
            | Some v \<Rightarrow> validate_str v) of
        None \<Rightarrow> Inl (ValidationError ''ctag'')
      | Some c \<Rightarrow>
     (case validate_declared (declared cls) data of
        Inl e \<Rightarrow> Inl e
      | Inr fs \<Rightarrow> Inr \<lparr>command_cls = cls, tid = t, aid = a, ctag = c, extra = fs\<rparr>))))"

section \<open>The client facade (client.py, FlexILSClient)\<close>

text \<open>
  The TNMS client is the external transport: for a device and a command text it returns
  the output of the device. \<open>bound_methods\<close> are the instance attributes that
  \<^verbatim>\<open>_init_command_methods\<close> sets; a bound method is the command class its closure captured.
\<close>

record FlexILSClient =
  device_uuid :: string
  device_tid :: string
  tnms_client :: "string \<Rightarrow> string \<Rightarrow> string"
  bound_methods :: "(string \<times> TL1CommandClass) list"

definition execute_raw_command :: "FlexILSClient \<Rightarrow> string \<Rightarrow> string" where
  "execute_raw_command self command = tnms_client self (device_uuid self) command"

text \<open>
  \<^verbatim>\<open>TL1BaseCommand.execute\<close>. The result is paired with the command texts handed to the
  transport, in order.
\<close>

type_synonym outcome = "string list \<times> (error + TL1BaseResponse)"

definition execute :: "TL1BaseCommand \<Rightarrow> FlexILSClient \<Rightarrow> outcome" where
  "execute self client =
     (case to_string self of
        Inl e \<Rightarrow> ([], Inl e)
      | Inr command_str \<Rightarrow>
          (let response_str = execute_raw_command client command_str
           in ([command_str],
               if sublist DENY response_str \<and> \<not> sublist ALREADY response_str
               then Inl (TL1CommandDeniedError (device_uuid client) command_str response_str)
               else from_raw_text (response_class (command_cls self)) response_str
                      (TL1BaseCommand.ctag self))))"

text \<open>
  \<^verbatim>\<open>command_cls(tid=self.device_tid, **kwargs)\<close>: a keyword given twice is a
  \<^verbatim>\<open>TypeError\<close> of the call itself.
\<close>

type_synonym kwargs = "(string \<times> pyval) list"

definition build_command :: "string \<Rightarrow> FlexILSClient \<Rightarrow> TL1CommandClass \<Rightarrow> kwargs
    \<Rightarrow> error + TL1BaseCommand" where
  "build_command default_ctag self cls kw =
     (if ''tid'' \<in> set (map fst kw) then Inl (TypeError ''tid'')
      else construct default_ctag cls ((''tid'', PAtom (AStr (device_tid self))) # kw))"

definition execute_command :: "string \<Rightarrow> FlexILSClient \<Rightarrow> TL1CommandClass \<Rightarrow> kwargs \<Rightarrow> outcome" where
  "execute_command default_ctag self cls kw =
     (case build_command default_ctag self cls kw of
        Inl e \<Rightarrow> ([], Inl e)
      | Inr command \<Rightarrow> execute command self)"

text \<open>\<^verbatim>\<open>_init_command_methods\<close> and \<^verbatim>\<open>__init__\<close>.\<close>

definition init_command_methods :: "registry \<Rightarrow> FlexILSClient \<Rightarrow> FlexILSClient" where
  "init_command_methods commands self =
     fold (\<lambda>(name, cls) s. s\<lparr>bound_methods := AList.update name cls (bound_methods s)\<rparr>)
       commands self"

definition FlexILSClient_init :: "registry \<Rightarrow> (string \<Rightarrow> string \<Rightarrow> string) \<Rightarrow> string \<Rightarrow> string
    \<Rightarrow> FlexILSClient" where
  "FlexILSClient_init commands tnms uuid t =
     init_command_methods commands
       \<lparr>device_uuid = uuid, device_tid = t, tnms_client = tnms, bound_methods = []\<rparr>"

text \<open>
  \<^verbatim>\<open>__getattr__\<close>: the closure it returns is the command class it looked up (a class is
  truthy).
\<close>

definition getattr_hook :: "registry \<Rightarrow> FlexILSClient \<Rightarrow> string \<Rightarrow> error + TL1CommandClass" where
  "getattr_hook commands self name =
     (case map_of commands name of
        Some cmd_cls \<Rightarrow> Inr cmd_cls
      | None \<Rightarrow> Inl (AttributeError ''FlexILSClient'' name))"

text \<open>
  Both closures have the body \<^verbatim>\<open>self._execute_command(cmd_class, **kwargs)\<close>. The eager call
  is the call of the method bound at construction, if there is one of that name; the lazy
  call is the call of what \<^verbatim>\<open>__getattr__\<close> returns.
\<close>

definition eager_call :: "string \<Rightarrow> FlexILSClient \<Rightarrow> string \<Rightarrow> kwargs \<Rightarrow> outcome option" where
  "eager_call default_ctag self name kw =
     map_option (\<lambda>cls. execute_command default_ctag self cls kw) (map_of (bound_methods self) name)"

definition lazy_call :: "string \<Rightarrow> registry \<Rightarrow> FlexILSClient \<Rightarrow> string \<Rightarrow> kwargs \<Rightarrow> outcome" where
  "lazy_call default_ctag commands self name kw =
     (case getattr_hook commands self name of
        Inl e \<Rightarrow> ([], Inl e)
      | Inr cls \<Rightarrow> execute_command default_ctag self cls kw)"

text \<open>
  Attribute access \<^verbatim>\<open>client.name\<close>: the instance attributes (the bound methods were set
  last), then the attributes of the class, and only on a miss \<^verbatim>\<open>__getattr__\<close>. The names
  every object inherits from \<^verbatim>\<open>object\<close> depend on the interpreter and are the parameter
  \<open>inherited\<close>.
\<close>

datatype attribute =
    StrValue string
  | TnmsClientValue
  | CommandMethod TL1CommandClass
  | ClassAttribute string

definition class_body :: "string list" where
  "class_body = [''__init__'', ''__getattr__'', ''_execute_raw_commands'', ''_execute_raw_command'',
                 ''_execute_command'', ''_init_command_methods'']"

definition getattribute :: "string list \<Rightarrow> registry \<Rightarrow> FlexILSClient \<Rightarrow> string \<Rightarrow> error + attribute" where
  "getattribute inherited commands self name =
     (case map_of (bound_methods self) name of
        Some cls \<Rightarrow> Inr (CommandMethod cls)
      | None \<Rightarrow>
          if name = ''device_uuid'' then Inr (StrValue (device_uuid self))
          else if name = ''device_tid'' then Inr (StrValue (device_tid self))
          else if name = ''tnms_client'' then Inr TnmsClientValue
          else if name \<in> set class_body \<or> name \<in> set inherited then Inr (ClassAttribute name)
          else (case getattr_hook commands self name of
                  Inl e \<Rightarrow> Inl e
                | Inr cls \<Rightarrow> Inr (CommandMethod cls)))"

section \<open>Command classes of the repository\<close>

text \<open>A field \<^verbatim>\<open>name: str | None = None\<close>.\<close>

definition optional_str_field :: field_decl where
  "optional_str_field =
     \<lparr>fd_default = Some PNone,
      fd_validate = (\<lambda>v. case v of PNone \<Rightarrow> Some PNone | PAtom (AStr s) \<Rightarrow> Some v | _ \<Rightarrow> None)\<rparr>"

text \<open>commands/ots.py\<close>

definition RetrieveOts :: TL1CommandClass where
  "RetrieveOts =
     \<lparr>class_name = ''RetrieveOts'',
      help_text = ''RTRV-OTS:[<TID>]:[<AID>]:<CTAG>::::'',
      verb = ''RTRV'', modifier = ''OTS'',
      response_class = OtsResponse,
      aid_required = False, declared = [], to_string_impl = BaseToString\<rparr>"

text \<open>commands/sch.py: the two classes have the same help text, verb and modifier.\<close>

definition maintenance_sch_help :: string where
  "maintenance_sch_help =
     ''RMV-{EQPT|OCH|DTPCTP|TRIB|OC768|OC192|OC48|OC12|OC3|STM256|STM64|STM16|STM4|STM1''
     @ ''|10GBE|SNC|1GBE|10GCC|4GCC|HD1485CC|HD1483CC|SD270CC|DVB270CC|DV6000CC|ESCON200C''
     @ ''C|IB25GCC|IB10GCC|25GCC|1G0625CC|1G25CC|2G125CC|NCT|SUBCLIENT|VCG|DCH|OTU1|OTU1E''
     @ ''|OTU2|OTU3|OTU4|OTUC1I10|OTUC1I|OTUC2I|OTUC3I50|OTUC1I7G5|OTUC1I15|OTUC2I22G5|OT''
     @ ''UC2I30|OTUC2I37G5|OTUC3I45|OTUC3I52G5|OTUC3I|OTUC4I67G5|OTUC4I75|OTUC24I|OTUC18I''
     @ ''|OTUC12I|OTUC10I|OTUC20I|OTUC8I150|OTUC15I|OTUC5I|OTUC2I|OTUC1I|OTUC4I|OTUC9I|OT''
     @ ''UC6I|OTUC8I|OTUC1I10|OTUC1I5|OTUC5I90|OTUC22I|OTUC16I|OTUC14I|OTUC17I330|OTUC14I''
     @ ''270|OTUC11I210|OTUC11I|OTUC7I|OTUC9I165|OTUC7I135|OTUC6I105|OTUC6I110|OTUC4I70|O''
     @ ''TUC3I55|OTUC2I35|OTUC2I25|OTUC5I82G5|OTU2E|OTU3E1|OTU3E2|ODU0|ODU1|ODU2|ODU3|ODU''
     @ ''4|ODU1E|ODU2E|ODU3E1|ODU3E2|ODU1T|ODU1ET|ODU2T|ODU2ET|ODU2IT|ODU3IT|ODUFLEXIT|OD''
     @ ''U3IPT|ODU4IT|OTU3I|OTU3IP|OTU4I|ODU2I|ODU3I|ODUFLEXI|ODUFLEX|ODU3IP|ODU4I|ODUC1I''
     @ ''10|ODUC1I|ODUC2I|ODUC3I50|ODUC1I7G5|ODUC1I15|ODUC2I22G5|ODUC2I30|ODUC2I37G5|ODUC''
     @ ''3I45|ODUC3I52G5|ODUC3I|ODUC4I67G5|ODUC4I75|ODUC24I|ODUC18I|ODUC12I|ODUC10I|ODUC2''
     @ ''0I|ODUC8I150|ODUC15I|ODUC5I|ODUC4I|ODUC9I|ODUC6I|ODUC8I|ODUC1I5|ODUC5I90|ODUC22I''
     @ ''|ODUC16I|ODUC14I|ODUC17I330|ODUC14I270|ODUC11I210|ODUC11I|ODUC7I|ODUC9I165|ODUC7''
     @ ''I135|ODUC6I105|ODUC6I110|ODUC4I70|ODUC3I55|ODUC2I35|ODUC2I25|ODUC5I82G5|1GFC|2GF''
     @ ''C|4GFC|8GFC|10GFC|40GBE|100GBE|400GBE|10G3CC|OCHCTP|OCHPTP|11G1CC|GFP|GTP|SCH|PW''
     @ ''RFEED|IDLERCTP|IDLERPTP|OSNC|CARRIERCTP|DIGITALWRAPPER|FLEXCARRIER|BANDPTP|NTP|E''
     @ ''THIF|AC|NWIF|VSI|PW|OPSMPTP|SCG|OCG|OLDPSCH|IKE|ASEPTP|BAND|OTS|EXPNPTP|NCC|OSC}''
     @ '':[<TID>]:<AID>:<CTAG>::[<mode>],[<state>]''"

definition MaintenanceSch :: TL1CommandClass where
  "MaintenanceSch =
     \<lparr>class_name = ''MaintenanceSch'',
      help_text = maintenance_sch_help,
      verb = ''RMV'', modifier = ''SCH'',
      response_class = TL1BaseResponse_class,
      aid_required = True,
      declared = [(''mode'', optional_str_field), (''state'', optional_str_field)],
      to_string_impl = BaseToString\<rparr>"

definition RestoreAdminStateSch :: TL1CommandClass where
  "RestoreAdminStateSch =
     \<lparr>class_name = ''RestoreAdminStateSch'',
      help_text = maintenance_sch_help,
      verb = ''RMV'', modifier = ''SCH'',
      response_class = TL1BaseResponse_class,
      aid_required = True,
      declared = [(''mode'', optional_str_field), (''state'', optional_str_field)],
      to_string_impl = BaseToString\<rparr>"


text \<open>
  commands/oel.py: a field \<^verbatim>\<open>Literal[...] | None = None\<close> and a field
  \<^verbatim>\<open>list[str] | None = None\<close>.
\<close>

definition literal_field :: "string list \<Rightarrow> field_decl" where
  "literal_field allowed =
     \<lparr>fd_default = Some PNone,
      fd_validate = (\<lambda>v. case v of
          PNone \<Rightarrow> Some PNone
        | PAtom (AStr s) \<Rightarrow> if s \<in> set allowed then Some v else None
        | _ \<Rightarrow> None)\<rparr>"

definition is_str :: "atom \<Rightarrow> bool" where
  "is_str a \<longleftrightarrow> (case a of AStr s \<Rightarrow> True | AInt i \<Rightarrow> False)"

definition optional_str_list_field :: field_decl where
  "optional_str_list_field =
     \<lparr>fd_default = Some PNone,
      fd_validate = (\<lambda>v. case v of
          PNone \<Rightarrow> Some PNone
        | PList xs \<Rightarrow> if list_all is_str xs then Some v else None
        | _ \<Rightarrow> None)\<rparr>"

definition EditOel :: TL1CommandClass where
  "EditOel =
     \<lparr>class_name = ''EditOel'',
      help_text = ''ED-OEL:[<TID>]:<AID>:<CTAG>:::[<LABEL=label>][,<OELSOURCE=manual|NPS>][,<COMPCARDTYPELIST=compcardtypelist>]:[IS|OOS|AINS]'',
      verb = ''ED'', modifier = ''OEL'',
      response_class = TL1BaseResponse_class,
      aid_required = True,
      declared = [(''label'', optional_str_field), (''oelsource'', literal_field [''manual'', ''NPS'']),
                  (''compcardtypelist'', optional_str_list_field), (''is_oos_ains'', optional_str_field)],
      to_string_impl = BaseToString\<rparr>"

section \<open>The round trip of the specification\<close>







section \<open>Fixtures\<close>

text \<open>A transport that answers every command with the same text, a command and a client.\<close>

definition fixed_response :: "string \<Rightarrow> string \<Rightarrow> string \<Rightarrow> string" where
  "fixed_response response uuid command = response"

definition retrieve_ots_command :: TL1BaseCommand where
  "retrieve_ots_command =
     \<lparr>command_cls = RetrieveOts, tid = Some ''NODE'', aid = Some ''1-A-1-L1'', ctag = ''CT'', extra = []\<rparr>"

definition test_client :: "string \<Rightarrow> FlexILSClient" where
  "test_client response =
     \<lparr>device_uuid = ''uuid'', device_tid = ''NODE'', tnms_client = fixed_response response, bound_methods = []\<rparr>"


definition edit_oel_command :: TL1BaseCommand where
  "edit_oel_command =
     \<lparr>command_cls = EditOel, tid = Some ''NODE'', aid = Some ''OEL1'', ctag = ''CT'',
      extra = [(''label'', PAtom (AStr ''L1'')), (''oelsource'', PNone),
               (''compcardtypelist'', PList [AStr ''A'', AStr ''B'']), (''is_oos_ains'', PNone)]\<rparr>"

section \<open>Properties of the response parser\<close>

lemma rfind_None_iff: "rfind s t = None \<longleftrightarrow> \<not> sublist t s"
  by (induction s) (auto simp: sublist_Cons_right split: option.splits)

text \<open>
  C3. When the correlation tag does not occur in the raw response text, parsing fails and
  returns no response object. The failure is the \<^verbatim>\<open>ValueError\<close> raised in
  \<^verbatim>\<open>from_raw_text\<close>, which is what the specification calls the protocol error.
\<close>

theorem from_raw_text_tag_absent:
  "\<not> sublist tag message \<Longrightarrow>
   from_raw_text cls message tag
     = Inl (ValueError (''Could not find tag '' @ tag @ '' in message: '' @ message))"
  using rfind_None_iff [of message tag] by (simp add: from_raw_text_def extract_status_def)

theorem from_raw_text_tag_absent_witness:
  "\<not> sublist ''TAGS'' ''abc TAG'' \<and>
   from_raw_text OtsResponse ''abc TAG'' ''TAGS''
     = Inl (ValueError ''Could not find tag TAGS in message: abc TAG'')"
proof -
  have h: "\<not> sublist ''TAGS'' ''abc TAG''" by (simp add: sublist_code)
  show ?thesis using h from_raw_text_tag_absent [OF h, of OtsResponse] by simp
qed

lemma takeWhile_hd_Nil: "xs = [] \<or> \<not> P (hd xs) \<Longrightarrow> takeWhile P xs = []"
  by (cases xs) auto

lemma re_match_status_run:
  assumes "list_all is_space ws" "w \<noteq> []" "list_all is_word w" "rest = [] \<or> \<not> is_word (hd rest)"
  shows "re_match_status (ws @ w @ rest) = Some w"
proof -
  have nw: "\<not> is_space (hd w)"
    using assms(2,3) by (cases w) (auto simp: is_space_def is_word_def latin1_word_def)
  have 1: "dropWhile is_space (ws @ w @ rest) = w @ rest"
    using assms(1,2) nw by (induction ws) (auto simp: dropWhile_append3 hd_conv_nth neq_Nil_conv)
  have 2: "takeWhile is_word (w @ rest) = w"
    using assms(3) takeWhile_hd_Nil [of rest is_word, OF assms(4)] by (induction w) (auto simp: list_all_iff)
  show ?thesis using assms(2) by (simp add: re_match_status_def 1 2)
qed

lemma re_match_status_none:
  assumes "dropWhile is_space text = [] \<or> \<not> is_word (hd (dropWhile is_space text))"
  shows "re_match_status text = None"
  using takeWhile_hd_Nil [of "dropWhile is_space text" is_word, OF assms] by (simp add: re_match_status_def)

text \<open>
  C10 (amended). With the tag found last at \<open>index\<close>: when the text after it is white space,
  then a maximal run \<open>w\<close> of word characters, the status is \<open>w\<close>; when the text after it,
  white space skipped, is empty or begins with a character that is no word character, the
  call of \<^verbatim>\<open>group\<close> on \<^verbatim>\<open>None\<close> raises \<^verbatim>\<open>AttributeError\<close>.
\<close>

theorem extract_status_spec:
  assumes "rfind message tag = Some index"
  shows "(\<forall>ws w rest. drop (index + length tag) message = ws @ w @ rest \<and> list_all is_space ws \<and>
            w \<noteq> [] \<and> list_all is_word w \<and> (rest = [] \<or> \<not> is_word (hd rest))
            \<longrightarrow> extract_status message tag = Inr w)
       \<and> (dropWhile is_space (drop (index + length tag) message) = [] \<or>
            \<not> is_word (hd (dropWhile is_space (drop (index + length tag) message)))
            \<longrightarrow> extract_status message tag = Inl (AttributeError ''NoneType'' ''group'') \<and>
                from_raw_text cls message tag = Inl (AttributeError ''NoneType'' ''group''))"
  using assms
  by (auto simp: from_raw_text_def extract_status_def re_match_status_run re_match_status_none)

theorem extract_status_spec_witness:
  "rfind ''M  CTAG COMPLD-1 CTAG  DENY;x'' ''CTAG'' = Some 17 \<and>
   extract_status ''M  CTAG COMPLD-1 CTAG  DENY;x'' ''CTAG'' = Inr ''DENY'' \<and>
   rfind ''M  COMPLD CTAG '' ''CTAG'' = Some 10 \<and>
   extract_status ''M  COMPLD CTAG '' ''CTAG'' = Inl (AttributeError ''NoneType'' ''group'')"
proof -
  have r1: "rfind ''M  CTAG COMPLD-1 CTAG  DENY;x'' ''CTAG'' = Some 17" by simp
  have r2: "rfind ''M  COMPLD CTAG '' ''CTAG'' = Some 10" by simp
  have d1: "drop (17 + length ''CTAG'') ''M  CTAG COMPLD-1 CTAG  DENY;x'' = ''  '' @ ''DENY'' @ '';x''"
    by simp
  have s1: "extract_status ''M  CTAG COMPLD-1 CTAG  DENY;x'' ''CTAG'' = Inr ''DENY''"
    using extract_status_spec [OF r1, THEN conjunct1, rule_format, of "''  ''" "''DENY''" "'';x''"] d1
    by (simp add: is_space_def is_word_def latin1_word_def)
  have s2: "extract_status ''M  COMPLD CTAG '' ''CTAG'' = Inl (AttributeError ''NoneType'' ''group'')"
    using extract_status_spec [OF r2, THEN conjunct2] by (simp add: is_space_def)
  show ?thesis using r1 r2 s1 s2 by simp
qed

text \<open>
  Word characters follow the last occurrence of the tag here, behind a colon: no status is
  extracted.
\<close>

theorem status_precondition_counterexample:
  "rfind ''M  CTAG:COMPLD'' ''CTAG'' = Some 3 \<and>
   list_ex is_word (drop (3 + length ''CTAG'') ''M  CTAG:COMPLD'') \<and>
   from_raw_text TL1BaseResponse_class ''M  CTAG:COMPLD'' ''CTAG''
     = Inl (AttributeError ''NoneType'' ''group'')"
  by (simp add: from_raw_text_def extract_status_def re_match_status_def is_space_def is_word_def latin1_word_def)

lemma next_in_quotes_inside: "c \<noteq> backslash \<Longrightarrow> next_in_quotes True (c # xs) = True"
  by (auto simp: next_in_quotes_def quote_open_def quote_close_def)

lemma next_in_quotes_plain:
  "c \<noteq> backslash \<Longrightarrow> c \<noteq> CHR ''='' \<Longrightarrow> c \<noteq> CHR '':'' \<Longrightarrow> next_in_quotes q (c # xs) = q"
  by (auto simp: next_in_quotes_def quote_open_def quote_close_def)

lemma next_in_quotes_open:
  "next_in_quotes q (CHR ''='' # backslash # dquote # xs) = True"
  by (simp add: next_in_quotes_def quote_open_def)

lemma next_in_quotes_close:
  "next_in_quotes q (backslash # dquote # CHR '','' # xs) = False"
  by (simp add: next_in_quotes_def quote_open_def quote_close_def)

lemma next_in_quotes_after_open:
  "\<not> startswith xs (CHR '','') \<Longrightarrow> \<not> startswith xs (CHR '':'') \<Longrightarrow>
   next_in_quotes True (backslash # dquote # xs) = True"
  by (cases xs) (auto simp: next_in_quotes_def quote_open_def quote_close_def startswith_def)

lemma next_in_quotes_short: "length xs < 3 \<Longrightarrow> next_in_quotes q xs = q"
  by (simp add: next_in_quotes_def)

lemma scan_quoted:
  "backslash \<notin> set v \<Longrightarrow>
   scan_preserving_quotes d True cur (v @ rest) = scan_preserving_quotes d True (cur @ v) rest"
  by (induction v arbitrary: cur) (auto simp: next_in_quotes_inside)

lemma startswith_append:
  "\<not> startswith v c \<Longrightarrow> c \<noteq> backslash \<Longrightarrow> \<not> startswith (v @ backslash # r) c"
  by (cases v) (auto simp: startswith_def)

lemma scan_value:
  assumes "backslash \<notin> set v" "\<not> startswith v (CHR '','')" "\<not> startswith v (CHR '':'')"
    "d = CHR '','' \<or> d = CHR '':''"
  shows "scan_preserving_quotes d q cur (CHR ''='' # backslash # dquote # v @ backslash # r)
       = scan_preserving_quotes d True (cur @ CHR ''='' # backslash # dquote # v) (backslash # r)"
proof -
  have a: "next_in_quotes True (backslash # dquote # v @ backslash # r) = True"
    using assms(2,3) by (intro next_in_quotes_after_open startswith_append) auto
  show ?thesis
    using assms(4) scan_quoted [OF assms(1), of d "cur @ [CHR ''='', backslash, dquote]" "backslash # r"]
    by (auto simp: next_in_quotes_open a next_in_quotes_inside)
qed

lemma strip_chars_id:
  "xs \<noteq> [] \<Longrightarrow> \<not> P (hd xs) \<Longrightarrow> \<not> P (last xs) \<Longrightarrow> strip_chars P xs = xs"
proof -
  assume a: "xs \<noteq> []" "\<not> P (hd xs)" "\<not> P (last xs)"
  have 1: "dropWhile P xs = xs" using a(1,2) by (cases xs) auto
  have 2: "dropWhile P (rev xs) = rev xs" using a(1,3) by (cases "rev xs") (auto simp: last_rev hd_rev [symmetric])
  show ?thesis by (simp add: strip_chars_def 1 2)
qed

lemma sublist_amp: "sublist (CHR ''&'' # t) v \<Longrightarrow> CHR ''&'' \<in> set v"
  by (auto simp: sublist_def)

lemma decode_value_plain: "CHR ''&'' \<notin> set v \<Longrightarrow> decode_value v = Str v"
  using sublist_amp [of "''-''" v] sublist_amp [of "[]" v] by (auto simp: decode_value_def)

lemma scan_plain_char:
  "c \<noteq> backslash \<Longrightarrow> c \<noteq> CHR ''='' \<Longrightarrow> c \<noteq> CHR '':'' \<Longrightarrow> c \<noteq> d \<Longrightarrow>
   scan_preserving_quotes d q cur (c # rest) = scan_preserving_quotes d q (cur @ [c]) rest"
  by (simp add: next_in_quotes_plain)

lemma scan_close:
  "scan_preserving_quotes d q cur (backslash # dquote # CHR '','' # after)
     = (if d = CHR '','' then (cur @ [backslash, dquote]) # scan_preserving_quotes d False [] after
        else if d = CHR '':'' then scan_preserving_quotes d False (cur @ [backslash, dquote, CHR '','']) after
        else scan_preserving_quotes d q cur (backslash # dquote # CHR '','' # after))"
  by (simp add: next_in_quotes_close next_in_quotes_plain)

lemma scan_end:
  "scan_preserving_quotes d q cur [c] = (if c = d \<and> \<not> q then [cur, []] else [cur @ [c]])"
  by (simp add: next_in_quotes_short)

lemma split_colon:
  assumes "backslash \<notin> set v1" "\<not> startswith v1 (CHR '','')" "\<not> startswith v1 (CHR '':'')"
      "backslash \<notin> set v2" "\<not> startswith v2 (CHR '','')" "\<not> startswith v2 (CHR '':'')"
  shows "split_preserving_quotes
           (''AID='' @ backslash # dquote # v1 @ backslash # dquote # '',LABEL='' @ backslash # dquote # v2 @ [backslash])
           (CHR '':'')
         = [''AID='' @ backslash # dquote # v1 @ backslash # dquote # '',LABEL='' @ backslash # dquote # v2 @ [backslash]]"
  by (simp add: split_preserving_quotes_def scan_plain_char scan_close scan_end
      scan_value [OF assms(1,2,3)] scan_value [OF assms(4,5,6)]
      del: scan_preserving_quotes.simps(2))

lemma split_comma:
  assumes "backslash \<notin> set v1" "\<not> startswith v1 (CHR '','')" "\<not> startswith v1 (CHR '':'')"
      "backslash \<notin> set v2" "\<not> startswith v2 (CHR '','')" "\<not> startswith v2 (CHR '':'')"
  shows "split_preserving_quotes
           (''AID='' @ backslash # dquote # v1 @ backslash # dquote # '',LABEL='' @ backslash # dquote # v2 @ [backslash])
           (CHR '','')
         = [''AID='' @ backslash # dquote # v1 @ [backslash, dquote],
            ''LABEL='' @ backslash # dquote # v2 @ [backslash]]"
  by (simp add: split_preserving_quotes_def scan_plain_char scan_close scan_end
      scan_value [OF assms(1,2,3)] scan_value [OF assms(4,5,6)]
      del: scan_preserving_quotes.simps(2))

lemma strip_chars_nonempty: "\<not> P x \<Longrightarrow> strip_chars P (x # xs) \<noteq> []"
  by (auto simp: strip_chars_def dropWhile_eq_Nil_conv)

lemma parse_named_part:
  assumes "CHR ''='' \<notin> set k" "strip k = k" "v \<noteq> []" "\<not> is_space (hd v)" "\<not> is_space (last v)"
    "hd v \<noteq> dquote" "CHR ''&'' \<notin> set v"
  shows "parse_part i j (k @ CHR ''='' # v) rec = AList.update k (Str v) rec"
proof -
  have 1: "takeWhile (\<lambda>c. c \<noteq> CHR ''='') (k @ CHR ''='' # v) = k"
    using assms(1) by (induction k) auto
  have 2: "dropWhile (\<lambda>c. c \<noteq> CHR ''='') (k @ CHR ''='' # v) = CHR ''='' # v"
    using assms(1) by (induction k) auto
  have 3: "strip v = v"
    unfolding strip_def using assms(3,4,5) by (rule strip_chars_id)
  have 4: "unquote v = v"
    using assms(3,6) by (cases v) (auto simp: unquote_def startswith_def)
  show ?thesis
    by (simp add: parse_part_def 1 2 3 4 assms(2) decode_value_plain [OF assms(7)])
qed

text \<open>
  C1 (amended). The tokenizer enters quoted mode on the three characters equals sign (or
  colon), backslash, double quote, and leaves it on backslash, double quote, comma (or
  colon). For a quoted response line whose two values are wrapped in backslash-escaped
  quotes, \<^verbatim>\<open>"AID=\"v1\",LABEL=\"v2\""\<close>, with values free of backslash and ampersand that do
  not begin with a comma or a colon, the parser produces exactly the two named fields
  \<open>AID\<close> and \<open>LABEL\<close>: the commas and colons inside the values are no delimiters, and each
  value is kept whole between its escape characters (the closing quote of the last one goes
  with the outer quotes of the line).
\<close>

theorem parse_line_escaped_quotes:
  assumes "backslash \<notin> set v1" "\<not> startswith v1 (CHR '','')" "\<not> startswith v1 (CHR '':'')"
      "backslash \<notin> set v2" "\<not> startswith v2 (CHR '','')" "\<not> startswith v2 (CHR '':'')"
      "CHR ''&'' \<notin> set v1" "CHR ''&'' \<notin> set v2"
  shows "parse_line (dquote # ''AID='' @ backslash # dquote # v1 @ backslash # dquote #
                       '',LABEL='' @ backslash # dquote # v2 @ [backslash, dquote, dquote])
         = Some [(''AID'', Str (backslash # dquote # v1 @ [backslash, dquote])),
                 (''LABEL'', Str (backslash # dquote # v2 @ [backslash]))]"
proof -
  let ?text = "''AID='' @ backslash # dquote # v1 @ backslash # dquote # '',LABEL='' @ backslash # dquote # v2 @ [backslash]"
  let ?line = "dquote # ?text @ [dquote, dquote]"
  have l1: "strip_chars (\<lambda>c. c \<in> set '' ;'') ?line = ?line"
    by (rule strip_chars_id) simp_all
  have l2: "strip_chars (\<lambda>c. c = dquote) ?line = ?text"
    by (simp add: strip_chars_def)
  have s: "strip ?text \<noteq> []"
    unfolding strip_def by (simp add: strip_chars_nonempty is_space_def)
  have p1: "parse_part 0 0 (''AID'' @ CHR ''='' # (backslash # dquote # v1 @ [backslash, dquote])) []
              = AList.update ''AID'' (Str (backslash # dquote # v1 @ [backslash, dquote])) []"
    using assms(7) by (intro parse_named_part) (simp_all add: strip_def strip_chars_def is_space_def)
  have p2: "parse_part 0 (Suc 0) (''LABEL'' @ CHR ''='' # (backslash # dquote # v2 @ [backslash])) rec
              = AList.update ''LABEL'' (Str (backslash # dquote # v2 @ [backslash])) rec" for rec
    using assms(8) by (intro parse_named_part) (simp_all add: strip_def strip_chars_def is_space_def)
  have "parse_line ?line = Some (parse_sections 0 (split_preserving_quotes ?text (CHR '':'')) [])"
    unfolding parse_line_def l1 Let_def l2 by (simp add: startswith_def)
  also have "\<dots> = Some (parse_parts 0 0 (split_preserving_quotes ?text (CHR '','')) [])"
    unfolding split_colon [OF assms(1-6)] using s by simp
  also have "\<dots> = Some [(''AID'', Str (backslash # dquote # v1 @ [backslash, dquote])),
                 (''LABEL'', Str (backslash # dquote # v2 @ [backslash]))]"
    unfolding split_comma [OF assms(1-6)] using p1 p2 by simp
  finally show ?thesis by simp
qed

theorem parse_line_escaped_quotes_witness:
  "parse_line (dquote # ''AID='' @ backslash # dquote # ''a,b:c'' @ backslash # dquote #
                 '',LABEL='' @ backslash # dquote # ''x:y'' @ [backslash, dquote, dquote])
   = Some [(''AID'', Str (backslash # dquote # ''a,b:c'' @ [backslash, dquote])),
           (''LABEL'', Str (backslash # dquote # ''x:y'' @ [backslash]))]"
  using parse_line_escaped_quotes [of "''a,b:c''" "''x:y''"] by (simp add: startswith_def)

text \<open>
  The line of C1 as the claim writes it, with plain double quotes, in a complete response:
  quoted mode is never entered, and the record has five fields.
\<close>

theorem plain_quotes_counterexample:
  "from_raw_text TL1BaseResponse_class
     (''M  CTAG COMPLD'' @ [CHR 0x0A] @ ''   '' @ [dquote] @ ''AID='' @ [dquote] @ ''a,b:c'' @ [dquote]
        @ '',LABEL='' @ [dquote] @ ''x:y'' @ [dquote, dquote, CHR 0x0A] @ '';'') ''CTAG''
   = Inr \<lparr>status = ''COMPLD'',
          raw_data = ''CTAG COMPLD'' @ [CHR 0x0A] @ ''   '' @ [dquote] @ ''AID='' @ [dquote] @ ''a,b:c'' @ [dquote]
             @ '',LABEL='' @ [dquote] @ ''x:y'' @ [dquote, dquote, CHR 0x0A] @ '';'',
          parsed_data = [[(''AID'', Str (dquote # ''a'')), (''positional_param_0_1'', Str ''b''),
                          (''positional_param_1_0'', Str (''c'' @ [dquote])), (''LABEL'', Str (dquote # ''x'')),
                          (''positional_param_2_0'', Str ''y'')]],
          ctag = ''CTAG'', sid = None, tid = None\<rparr>"
  by code_simp

section \<open>Properties of the serializer\<close>

lemma RetrieveOts_sections:
  "split '':'' (help_text RetrieveOts) = [''RTRV-OTS'', ''[<TID>]'', ''[<AID>]'', ''<CTAG>'', [], [], [], []]"
  by (simp add: RetrieveOts_def split_def)

lemma strip_Nil: "strip [] = []"
  by (simp add: strip_def strip_chars_def)

lemma section_tid:
  "to_string_section \<lparr>command_cls = c, tid = None, aid = a, ctag = t, extra = e\<rparr> ''[<TID>]'' = Inr []"
  by (simp add: to_string_section_def to_string_part_def strip_def strip_chars_def is_space_def
      split_def startswith_def endswith_def lower_def lower_char_def latin1_upper_def getattr_def opt_str_def)

lemma section_aid:
  "to_string_section \<lparr>command_cls = c, tid = x, aid = Some ''1-A-1-L1'', ctag = t, extra = e\<rparr> ''[<AID>]''
     = Inr ''1-A-1-L1''"
  by (simp add: to_string_section_def to_string_part_def strip_def strip_chars_def is_space_def
      split_def startswith_def endswith_def lower_def lower_char_def latin1_upper_def getattr_def opt_str_def)

lemma section_ctag:
  "to_string_section \<lparr>command_cls = c, tid = x, aid = a, ctag = t, extra = e\<rparr> ''<CTAG>'' = Inr t"
  by (simp add: to_string_section_def to_string_part_def strip_def strip_chars_def is_space_def
      split_def startswith_def endswith_def lower_def lower_char_def latin1_upper_def getattr_def opt_str_def)

text \<open>
  C5. \<^verbatim>\<open>RetrieveOts\<close> with \<^verbatim>\<open>aid="1-A-1-L1"\<close>, no TID and any correlation tag serializes to
  \<^verbatim>\<open>RTRV-OTS::1-A-1-L1:<CTAG>::::;\<close>: the section of the absent TID is empty, the four empty
  sections at the end of the template are kept, and the text ends with a semicolon.
\<close>

theorem RetrieveOts_to_string:
  "to_string \<lparr>command_cls = RetrieveOts, tid = None, aid = Some ''1-A-1-L1'', ctag = t, extra = []\<rparr>
     = Inr (''RTRV-OTS::1-A-1-L1:'' @ t @ ''::::;'')"
proof -
  let ?self = "\<lparr>command_cls = RetrieveOts, tid = None, aid = Some ''1-A-1-L1'', ctag = t, extra = []\<rparr>"
  have impl: "to_string_impl RetrieveOts = BaseToString" "verb RetrieveOts = ''RTRV''" "modifier RetrieveOts = ''OTS''"
    by (simp_all add: RetrieveOts_def)
  have empty: "to_string_section ?self [] = Inr []"
    by (simp add: to_string_section_def strip_Nil)
  have "to_string_sections ?self [''[<TID>]'', ''[<AID>]'', ''<CTAG>'', [], [], [], []] [''RTRV-OTS'']
          = Inr [''RTRV-OTS'', [], ''1-A-1-L1'', t, [], [], [], []]"
    by (simp add: section_tid section_aid section_ctag empty)
  then show ?thesis
    by (simp add: to_string_def RetrieveOts_sections impl)
qed

theorem RetrieveOts_to_string_witness:
  "to_string \<lparr>command_cls = RetrieveOts, tid = None, aid = Some ''1-A-1-L1'', ctag = ''CTAG'', extra = []\<rparr>
     = Inr ''RTRV-OTS::1-A-1-L1:CTAG::::;''"
  using RetrieveOts_to_string [of "''CTAG''"] by simp

section \<open>Properties of the registry\<close>

text \<open>
  C2 (amended). \<^verbatim>\<open>register\<close> stores the class under the lower-case verb, an underscore, and
  the lower-case modifier with hyphens replaced by underscores. The registry keeps one class
  per name: registering a class whose name is already there replaces the earlier entry
  without any error, every other entry stays as it was, and the names stay distinct.
\<close>

theorem register_last_wins:
  "map_of (register cls commands) (method_name cls) = Some cls \<and>
   (\<forall>name. name \<noteq> method_name cls \<longrightarrow> map_of (register cls commands) name = map_of commands name) \<and>
   (distinct (map fst commands) \<longrightarrow> distinct (map fst (register cls commands))) \<and>
   method_name cls = lower (verb cls) @ ''_'' @ replace ''-'' ''_'' (lower (modifier cls))"
  by (simp add: register_def update_conv' distinct_update method_name_def)

theorem register_last_wins_witness:
  "map_of (register RestoreAdminStateSch [(''rtrv_ots'', RetrieveOts), (''rmv_sch'', MaintenanceSch)]) ''rmv_sch''
     = Some RestoreAdminStateSch \<and>
   map_of (register RestoreAdminStateSch [(''rtrv_ots'', RetrieveOts), (''rmv_sch'', MaintenanceSch)]) ''rtrv_ots''
     = Some RetrieveOts \<and>
   distinct (map fst (register RestoreAdminStateSch [(''rtrv_ots'', RetrieveOts), (''rmv_sch'', MaintenanceSch)]))"
proof -
  have m: "method_name RestoreAdminStateSch = ''rmv_sch''"
    by (simp add: RestoreAdminStateSch_def method_name_def lower_def lower_char_def latin1_upper_def)
  note r = register_last_wins [of RestoreAdminStateSch "[(''rtrv_ots'', RetrieveOts), (''rmv_sch'', MaintenanceSch)]"]
  show ?thesis
    using r [THEN conjunct1] r [THEN conjunct2, THEN conjunct1]
      r [THEN conjunct2, THEN conjunct2, THEN conjunct1]
    by (simp add: m)
qed

text \<open>
  \<^verbatim>\<open>MaintenanceSch\<close> and \<^verbatim>\<open>RestoreAdminStateSch\<close> are two classes with the one derived name
  \<open>rmv_sch\<close>; registering the second after the first leaves only the second.
\<close>

theorem register_counterexample:
  "MaintenanceSch \<noteq> RestoreAdminStateSch \<and>
   method_name MaintenanceSch = ''rmv_sch'' \<and>
   method_name RestoreAdminStateSch = ''rmv_sch'' \<and>
   map_of (register MaintenanceSch []) ''rmv_sch'' = Some MaintenanceSch \<and>
   register RestoreAdminStateSch (register MaintenanceSch []) = [(''rmv_sch'', RestoreAdminStateSch)]"
  by (simp add: MaintenanceSch_def RestoreAdminStateSch_def register_def method_name_def
      lower_def lower_char_def latin1_upper_def)

section \<open>Properties of the client facade\<close>

lemma bound_methods_fold:
  "bound_methods (fold (\<lambda>(name, cls) s. s\<lparr>bound_methods := AList.update name cls (bound_methods s)\<rparr>) commands self)
     = fold (\<lambda>(name, cls). AList.update name cls) commands (bound_methods self)"
  by (induction commands arbitrary: self) (auto split: prod.splits)

lemma other_fields_fold:
  "device_uuid (fold (\<lambda>(name, cls) s. s\<lparr>bound_methods := AList.update name cls (bound_methods s)\<rparr>) commands self) = device_uuid self \<and>
   device_tid (fold (\<lambda>(name, cls) s. s\<lparr>bound_methods := AList.update name cls (bound_methods s)\<rparr>) commands self) = device_tid self \<and>
   tnms_client (fold (\<lambda>(name, cls) s. s\<lparr>bound_methods := AList.update name cls (bound_methods s)\<rparr>) commands self) = tnms_client self"
  by (induction commands arbitrary: self) (auto split: prod.splits)

lemma map_of_fold_update:
  "distinct (map fst commands) \<Longrightarrow>
   map_of (fold (\<lambda>(name, cls). AList.update name cls) commands acc) = map_of acc ++ map_of commands"
proof (induction commands arbitrary: acc)
  case Nil
  then show ?case by simp
next
  case (Cons p ps)
  obtain k v where p: "p = (k, v)" by (cases p)
  have "k \<notin> fst ` set ps" using Cons.prems p by auto
  then have nk: "map_of ps k = None" by (simp add: map_of_eq_None_iff)
  have "map_of (fold (\<lambda>(name, cls). AList.update name cls) (p # ps) acc)
        = map_of (AList.update k v acc) ++ map_of ps"
    using Cons.IH [of "AList.update k v acc"] Cons.prems by (simp add: p)
  also have "\<dots> = map_of acc ++ map_of (p # ps)"
    using nk by (auto simp: p update_conv' fun_eq_iff map_add_def split: option.splits)
  finally show ?case .
qed

lemma bound_methods_init:
  "distinct (map fst commands) \<Longrightarrow>
   map_of (bound_methods (FlexILSClient_init commands tnms uuid t)) = map_of commands"
  by (simp add: FlexILSClient_init_def init_command_methods_def bound_methods_fold map_of_fold_update)

lemma fields_init:
  "device_uuid (FlexILSClient_init commands tnms uuid t) = uuid"
  "device_tid (FlexILSClient_init commands tnms uuid t) = t"
  "tnms_client (FlexILSClient_init commands tnms uuid t) = tnms"
  by (simp_all add: FlexILSClient_init_def init_command_methods_def other_fields_fold)

lemmas eval_defs = to_string_def to_string_section_def to_string_part_def strip_def strip_chars_def
  is_space_def split_def startswith_def endswith_def lower_def lower_char_def latin1_upper_def getattr_def opt_str_def
  RetrieveOts_def construct_def validate_optional_str_def validate_str_def build_command_def
  execute_command_def execute_def execute_raw_command_def fixed_response_def
  from_raw_text_def extract_status_def re_match_status_def is_word_def latin1_word_def splitlines_def
  OtsResponse_def TL1CompletionStatus_def DENY_def ALREADY_def sublist_code named_value_def
  is_linebreak_def

lemma rtrv_ots_outcome:
  "execute_command ''CT'' (FlexILSClient_init commands (fixed_response ''M  CT COMPLD'') ''uuid'' ''NODE'')
      RetrieveOts [(''aid'', PAtom (AStr ''1-A-1-L1''))]
   = ([''RTRV-OTS:NODE:1-A-1-L1:CT::::;''],
      Inr \<lparr>status = ''COMPLD'', raw_data = ''CT COMPLD'', parsed_data = [], ctag = ''CT'',
           sid = None, tid = None\<rparr>)"
  by (simp add: eval_defs fields_init)

text \<open>
  C7. For a registry (a dict, so its names are distinct) and a client constructed from it,
  for every registered name and all keyword arguments, the call of the eagerly bound method
  and the call through \<^verbatim>\<open>__getattr__\<close> have the same outcome: the same command texts handed
  to the transport and the same result or error.
\<close>

theorem eager_lazy_equivalent:
  assumes "distinct (map fst commands)" "map_of commands name = Some cls"
  shows "eager_call default_ctag (FlexILSClient_init commands tnms uuid t) name kw
           = Some (lazy_call default_ctag commands (FlexILSClient_init commands tnms uuid t) name kw)"
  using assms by (simp add: eager_call_def lazy_call_def getattr_hook_def bound_methods_init)

theorem eager_lazy_equivalent_witness:
  "distinct (map fst [(''rtrv_ots'', RetrieveOts)]) \<and>
   map_of [(''rtrv_ots'', RetrieveOts)] ''rtrv_ots'' = Some RetrieveOts \<and>
   eager_call ''CT'' (FlexILSClient_init [(''rtrv_ots'', RetrieveOts)] (fixed_response ''M  CT COMPLD'') ''uuid'' ''NODE'')
      ''rtrv_ots'' [(''aid'', PAtom (AStr ''1-A-1-L1''))]
     = Some ([''RTRV-OTS:NODE:1-A-1-L1:CT::::;''],
        Inr \<lparr>status = ''COMPLD'', raw_data = ''CT COMPLD'', parsed_data = [], ctag = ''CT'',
             sid = None, tid = None\<rparr>) \<and>
   lazy_call ''CT'' [(''rtrv_ots'', RetrieveOts)]
      (FlexILSClient_init [(''rtrv_ots'', RetrieveOts)] (fixed_response ''M  CT COMPLD'') ''uuid'' ''NODE'')
      ''rtrv_ots'' [(''aid'', PAtom (AStr ''1-A-1-L1''))]
     = ([''RTRV-OTS:NODE:1-A-1-L1:CT::::;''],
        Inr \<lparr>status = ''COMPLD'', raw_data = ''CT COMPLD'', parsed_data = [], ctag = ''CT'',
             sid = None, tid = None\<rparr>)"
proof -
  have d: "distinct (map fst [(''rtrv_ots'', RetrieveOts)])" by simp
  have m: "map_of [(''rtrv_ots'', RetrieveOts)] ''rtrv_ots'' = Some RetrieveOts" by simp
  have l: "lazy_call ''CT'' [(''rtrv_ots'', RetrieveOts)]
      (FlexILSClient_init [(''rtrv_ots'', RetrieveOts)] (fixed_response ''M  CT COMPLD'') ''uuid'' ''NODE'')
      ''rtrv_ots'' [(''aid'', PAtom (AStr ''1-A-1-L1''))]
     = ([''RTRV-OTS:NODE:1-A-1-L1:CT::::;''],
        Inr \<lparr>status = ''COMPLD'', raw_data = ''CT COMPLD'', parsed_data = [], ctag = ''CT'',
             sid = None, tid = None\<rparr>)"
    by (simp add: lazy_call_def getattr_hook_def rtrv_ots_outcome)
  show ?thesis
    using eager_lazy_equivalent [OF d m, of "''CT''" "fixed_response ''M  CT COMPLD''" "''uuid''" "''NODE''"
        "[(''aid'', PAtom (AStr ''1-A-1-L1''))]"] l
    by simp
qed

text \<open>
  C8 (amended). \<^verbatim>\<open>__getattr__\<close> raises \<^verbatim>\<open>AttributeError\<close> (the registry miss of the
  specification) for every name that is not registered; attribute access on the client
  reaches it, and raises, for a name that is neither registered, nor one of the instance
  attributes \<open>device_uuid\<close>, \<open>device_tid\<close>, \<open>tnms_client\<close>, nor an attribute of the class.
\<close>

theorem getattribute_miss:
  assumes "distinct (map fst commands)" "map_of commands name = None"
    "name \<notin> {''device_uuid'', ''device_tid'', ''tnms_client''}"
    "name \<notin> set class_body" "name \<notin> set inherited"
  shows "getattr_hook commands self name = Inl (AttributeError ''FlexILSClient'' name) \<and>
         getattribute inherited commands (FlexILSClient_init commands tnms uuid t) name
           = Inl (AttributeError ''FlexILSClient'' name)"
  using assms by (simp add: getattribute_def getattr_hook_def bound_methods_init)

theorem getattribute_miss_witness:
  "distinct (map fst [(''rtrv_ots'', RetrieveOts)]) \<and>
   map_of [(''rtrv_ots'', RetrieveOts)] ''rtrv_xyz'' = None \<and>
   ''rtrv_xyz'' \<notin> {''device_uuid'', ''device_tid'', ''tnms_client''} \<and>
   ''rtrv_xyz'' \<notin> set class_body \<and> ''rtrv_xyz'' \<notin> set [''__class__'', ''__dict__''] \<and>
   getattribute [''__class__'', ''__dict__''] [(''rtrv_ots'', RetrieveOts)]
     (FlexILSClient_init [(''rtrv_ots'', RetrieveOts)] (fixed_response []) ''uuid'' ''NODE'') ''rtrv_xyz''
     = Inl (AttributeError ''FlexILSClient'' ''rtrv_xyz'')"
proof -
  have d: "distinct (map fst [(''rtrv_ots'', RetrieveOts)])" by simp
  have m: "map_of [(''rtrv_ots'', RetrieveOts)] ''rtrv_xyz'' = None" by simp
  have a: "''rtrv_xyz'' \<notin> {''device_uuid'', ''device_tid'', ''tnms_client''}" by simp
  have b: "''rtrv_xyz'' \<notin> set class_body" by (simp add: class_body_def)
  have c: "''rtrv_xyz'' \<notin> set [''__class__'', ''__dict__'']" by simp
  show ?thesis
    using getattribute_miss [OF d m a b c] d m a b c by simp
qed

text \<open>
  \<open>device_tid\<close> is no registered command name, and resolving it raises nothing.
\<close>

theorem getattribute_counterexample:
  "map_of [(''rtrv_ots'', RetrieveOts)] ''device_tid'' = None \<and>
   getattribute [] [(''rtrv_ots'', RetrieveOts)]
     (FlexILSClient_init [(''rtrv_ots'', RetrieveOts)] (fixed_response []) ''uuid'' ''NODE'') ''device_tid''
     = Inr (StrValue ''NODE'')"
  by (simp add: getattribute_def FlexILSClient_init_def init_command_methods_def)

lemma construct_tid:
  "construct d cls ((''tid'', PAtom (AStr s)) # kw) = Inr command \<Longrightarrow> TL1BaseCommand.tid command = Some s"
  by (auto simp: construct_def validate_optional_str_def split: option.splits sum.splits if_splits)

text \<open>
  C9. The command value that \<^verbatim>\<open>_execute_command\<close> constructs has the device TID of the
  client in its \<open>tid\<close> field, and a keyword argument \<open>tid\<close> is a \<^verbatim>\<open>TypeError\<close> of the call:
  nothing is sent. Both the eager and the lazy call go through \<^verbatim>\<open>_execute_command\<close>.
\<close>

theorem build_command_tid:
  "(build_command default_ctag self cls kw = Inr command \<longrightarrow>
      TL1BaseCommand.tid command = Some (device_tid self)) \<and>
   (''tid'' \<in> set (map fst kw) \<longrightarrow>
      build_command default_ctag self cls kw = Inl (TypeError ''tid'') \<and>
      execute_command default_ctag self cls kw = ([], Inl (TypeError ''tid'')))"
  by (auto simp: build_command_def execute_command_def dest: construct_tid split: if_splits)

theorem build_command_tid_witness:
  "build_command ''CT'' (FlexILSClient_init [] (fixed_response []) ''uuid'' ''NODE'') RetrieveOts
       [(''aid'', PAtom (AStr ''1-A-1-L1''))]
     = Inr \<lparr>command_cls = RetrieveOts, tid = Some ''NODE'', aid = Some ''1-A-1-L1'', ctag = ''CT'', extra = []\<rparr> \<and>
   ''tid'' \<in> set (map fst [(''tid'', PAtom (AStr ''OTHER''))]) \<and>
   execute_command ''CT'' (FlexILSClient_init [] (fixed_response []) ''uuid'' ''NODE'') RetrieveOts
       [(''tid'', PAtom (AStr ''OTHER''))] = ([], Inl (TypeError ''tid''))"
proof -
  have b: "build_command ''CT'' (FlexILSClient_init [] (fixed_response []) ''uuid'' ''NODE'') RetrieveOts
       [(''aid'', PAtom (AStr ''1-A-1-L1''))]
     = Inr \<lparr>command_cls = RetrieveOts, tid = Some ''NODE'', aid = Some ''1-A-1-L1'', ctag = ''CT'', extra = []\<rparr>"
    by (simp add: build_command_def construct_def validate_optional_str_def validate_str_def fields_init
        RetrieveOts_def)
  have k: "''tid'' \<in> set (map fst [(''tid'', PAtom (AStr ''OTHER''))])" by simp
  show ?thesis
    using build_command_tid [of "''CT''" "FlexILSClient_init [] (fixed_response []) ''uuid'' ''NODE''" RetrieveOts
        "[(''tid'', PAtom (AStr ''OTHER''))]"] b k
    by simp
qed

lemma retrieve_ots_command_text: "to_string retrieve_ots_command = Inr ''RTRV-OTS:NODE:1-A-1-L1:CT::::;''"
  by code_simp

text \<open>
  C4 (amended). After the command is serialized and the transport has answered: a response
  that contains DENY and not ALREADY raises \<^verbatim>\<open>TL1CommandDeniedError\<close> with the device
  identifier, the serialized command and the raw response; a response that contains DENY
  together with ALREADY raises no \<^verbatim>\<open>TL1CommandDeniedError\<close>, and the outcome is that of
  \<^verbatim>\<open>from_raw_text\<close> on the response and the tag of the command.
\<close>

theorem execute_deny:
  assumes "to_string self = Inr command_str" "execute_raw_command client command_str = response_str"
  shows "(sublist DENY response_str \<and> \<not> sublist ALREADY response_str \<longrightarrow>
            execute self client
              = ([command_str], Inl (TL1CommandDeniedError (device_uuid client) command_str response_str)))
       \<and> (sublist DENY response_str \<and> sublist ALREADY response_str \<longrightarrow>
            execute self client
              = ([command_str], from_raw_text (response_class (command_cls self)) response_str
                                  (TL1BaseCommand.ctag self)))"
  using assms by (simp add: execute_def)

theorem execute_deny_witness:
  "execute retrieve_ots_command (test_client ''M  CT DENY'')
     = ([''RTRV-OTS:NODE:1-A-1-L1:CT::::;''],
        Inl (TL1CommandDeniedError ''uuid'' ''RTRV-OTS:NODE:1-A-1-L1:CT::::;'' ''M  CT DENY'')) \<and>
   execute retrieve_ots_command (test_client ''M  CT DENY ALREADY'')
     = ([''RTRV-OTS:NODE:1-A-1-L1:CT::::;''],
        Inr \<lparr>status = ''DENY'', raw_data = ''CT DENY ALREADY'', parsed_data = [], ctag = ''CT'',
             sid = None, tid = None\<rparr>)"
proof -
  have r: "execute_raw_command (test_client resp) ''RTRV-OTS:NODE:1-A-1-L1:CT::::;'' = resp" for resp
    by (simp add: execute_raw_command_def test_client_def fixed_response_def)
  have p: "from_raw_text OtsResponse ''M  CT DENY ALREADY'' ''CT''
      = Inr \<lparr>status = ''DENY'', raw_data = ''CT DENY ALREADY'', parsed_data = [], ctag = ''CT'',
             sid = None, tid = None\<rparr>"
    by code_simp
  have c: "response_class (command_cls retrieve_ots_command) = OtsResponse"
       "TL1BaseCommand.ctag retrieve_ots_command = ''CT''"
       "device_uuid (test_client resp) = ''uuid''" for resp
    by (simp_all add: retrieve_ots_command_def RetrieveOts_def test_client_def)
  have s: "sublist DENY ''M  CT DENY''" "\<not> sublist ALREADY ''M  CT DENY''"
      "sublist DENY ''M  CT DENY ALREADY''" "sublist ALREADY ''M  CT DENY ALREADY''"
    by (simp_all add: DENY_def ALREADY_def sublist_code)
  show ?thesis
    using execute_deny [OF retrieve_ots_command_text r, of "''M  CT DENY''", THEN conjunct1]
      execute_deny [OF retrieve_ots_command_text r, of "''M  CT DENY ALREADY''", THEN conjunct2]
    by (simp add: s p c)
qed

text \<open>
  A response with DENY, ALREADY and the tag, in which nothing follows the tag: the parser
  raises, so an error is raised although ALREADY is there.
\<close>

theorem execute_deny_already_counterexample:
  "sublist DENY ''M  DENY ALREADY CT'' \<and> sublist ALREADY ''M  DENY ALREADY CT'' \<and>
   sublist ''CT'' ''M  DENY ALREADY CT'' \<and>
   execute retrieve_ots_command (test_client ''M  DENY ALREADY CT'')
     = ([''RTRV-OTS:NODE:1-A-1-L1:CT::::;''], Inl (AttributeError ''NoneType'' ''group''))"
  by code_simp

section \<open>Properties of the round trip\<close>





























lemma edit_oel_command_constructed:
  "construct ''CT'' EditOel [(''tid'', PAtom (AStr ''NODE'')), (''aid'', PAtom (AStr ''OEL1'')),
      (''label'', PAtom (AStr ''L1'')), (''compcardtypelist'', PList [AStr ''A'', AStr ''B''])]
   = Inr edit_oel_command"
  by (simp add: construct_def EditOel_def edit_oel_command_def validate_optional_str_def validate_str_def
      optional_str_field_def literal_field_def optional_str_list_field_def is_str_def)

text \<open>
  A whole line for \<^verbatim>\<open>EditOel\<close>: the named fields come back under the names of the template,
  beside positional fields for the verb, the TID, the AID, the tag and the final semicolon.
\<close>

lemma edit_oel_line:
  "to_string edit_oel_command = Inr ''ED-OEL:NODE:OEL1:CT:::LABEL=L1,COMPCARDTYPELIST=A&B:;'' \<and>
   parse_line (dquote # ''ED-OEL:NODE:OEL1:CT:::LABEL=L1,COMPCARDTYPELIST=A&B:;'' @ [dquote])
     = Some [(''positional_param_0_0'', Str ''ED-OEL''), (''positional_param_1_0'', Str ''NODE''),
             (''positional_param_2_0'', Str ''OEL1''), (''positional_param_3_0'', Str ''CT''),
             (''LABEL'', Str ''L1''), (''COMPCARDTYPELIST'', FlatList [''A'', ''B'']),
             (''positional_param_7_0'', Str '';'')]"
  by code_simp

text \<open>
  A list of one list (the example route of commands/oel.py) is written without \<^verbatim>\<open>&-\<close> and
  comes back as a flat list.
\<close>

lemma single_route_example:
  "named_value (PNested [[AStr ''flex.aa00'', AStr ''1-A-2-L1'', AStr ''flex.zz99'', AStr ''1-A-1-L1'']])
     = Inr ''flex.aa00&1-A-2-L1&flex.zz99&1-A-1-L1'' \<and>
   decode_value ''flex.aa00&1-A-2-L1&flex.zz99&1-A-1-L1''
     = FlatList [''flex.aa00'', ''1-A-2-L1'', ''flex.zz99'', ''1-A-1-L1'']"
  by code_simp



end
